theory Spec2Isabelle
  imports Complex_Main "HOL-Library.Word" "HOL-Library.Multiset" "HOL-Library.Sublist"
begin

section \<open>The PostgreSQL message reader (readers/postgres/messages.go)\<close>

subsection \<open>Errors\<close>

text \<open>
  Go errors as values. \<open>New\<close> is \<^verbatim>\<open>errors.New\<close>; \<open>Wrap w e\<close> is
  \<^verbatim>\<open>errors.Wrap(w, e)\<close> of the package \<^verbatim>\<open>pkg/errors\<close>: the
  wrapper \<open>w\<close> is the top-level tag, \<open>e\<close> the underlying cause. Errors raised by
  the database driver and by the JSON decoder are arbitrary values of this type.
\<close>

datatype error = New string | Wrap error error

definition errReadMessages :: error where
  "errReadMessages = New ''failed to read messages from postgres database''"

definition defTable :: string where
  "defTable = ''messages''"

subsection \<open>Request and response types\<close>

text \<open>
  A \<^verbatim>\<open>float64\<close> is kept only as far as the reader looks at it: whether it is a
  finite number (the two zeros are the one value \<open>Finite 0\<close>), or one of the three
  values that \<^verbatim>\<open>json.Marshal\<close> refuses to encode.
\<close>

datatype float64 = Finite (number: rat) | NaN | PosInf | NegInf

text \<open>
  Modelled from the spec: the struct \<^verbatim>\<open>readers.PageMetadata\<close> is declared in
  the package \<^verbatim>\<open>readers\<close>. The field names are the ones \<^verbatim>\<open>ReadAll\<close>
  reads; the types are those of the data model (string filters, a numeric, a boolean,
  a string and an opaque value filter, a time range, unsigned limit and offset).
\<close>

record PageMetadata =
  Format :: string
  Subtopic :: string
  Publisher :: string
  Name :: string
  Protocol :: string
  Value :: float64
  BoolValue :: bool
  StringValue :: string
  DataValue :: string
  From :: float64
  To :: float64
  Limit :: "64 word"
  Offset :: "64 word"

text \<open>JSON values as \<^verbatim>\<open>encoding/json\<close> produces them.\<close>

datatype json =
    JNull
  | JBool bool
  | JNumber rat
  | JString string
  | JArray "json list"
  | JObject "(string \<times> json) list"

text \<open>
  Modelled from the spec: the JSON tags of \<^verbatim>\<open>readers.PageMetadata\<close>
  (\<open>format, subtopic, publisher, name, protocol, v, vb, vs, vd, from, to, limit, offset\<close>),
  every filter field omitted when it holds its zero value, limit and offset always
  written. \<^verbatim>\<open>json.Marshal\<close> fails on a float that is not finite.
\<close>

definition omitempty_string :: "string \<Rightarrow> string \<Rightarrow> (string \<times> json) list" where
  "omitempty_string tag s = (if s = [] then [] else [(tag, JString s)])"

definition omitempty_float :: "string \<Rightarrow> float64 \<Rightarrow> (string \<times> json) list" where
  "omitempty_float tag f = (if f = Finite 0 then [] else [(tag, JNumber (number f))])"

definition omitempty_bool :: "string \<Rightarrow> bool \<Rightarrow> (string \<times> json) list" where
  "omitempty_bool tag b = (if b then [(tag, JBool b)] else [])"

definition encodable :: "float64 \<Rightarrow> bool" where
  "encodable f = is_Finite f"

definition Marshal :: "PageMetadata \<Rightarrow> (string \<times> json) list option" where
  "Marshal rpm =
     (if encodable (Value rpm) \<and> encodable (From rpm) \<and> encodable (To rpm) then
        Some (omitempty_string ''format'' (Format rpm)
            @ omitempty_string ''subtopic'' (Subtopic rpm)
            @ omitempty_string ''publisher'' (Publisher rpm)
            @ omitempty_string ''name'' (Name rpm)
            @ omitempty_string ''protocol'' (Protocol rpm)
            @ omitempty_float ''v'' (Value rpm)
            @ omitempty_bool ''vb'' (BoolValue rpm)
            @ omitempty_string ''vs'' (StringValue rpm)
            @ omitempty_string ''vd'' (DataValue rpm)
            @ omitempty_float ''from'' (From rpm)
            @ omitempty_float ''to'' (To rpm)
            @ [(''limit'', JNumber (of_nat (unat (Limit rpm)))),
               (''offset'', JNumber (of_nat (unat (Offset rpm))))])
      else None)"

text \<open>\<^verbatim>\<open>json.Unmarshal(meta, &query)\<close>: the object as a Go map.\<close>

definition Unmarshal_map :: "(string \<times> json) list \<Rightarrow> (string \<rightharpoonup> json)" where
  "Unmarshal_map meta = map_of meta"

text \<open>
  \<^verbatim>\<open>for name := range query\<close> visits every key of the map once, in an order the
  Go runtime chooses anew at each loop. The order is an explicit argument of the
  model; \<open>range_order m ks\<close> says that \<open>ks\<close> is one of the orders the runtime may choose.
\<close>

definition range_order :: "('k \<rightharpoonup> 'v) \<Rightarrow> 'k list \<Rightarrow> bool" where
  "range_order m ks \<longleftrightarrow> distinct ks \<and> set ks = dom m"

subsection \<open>The condition builder\<close>

text \<open>The body of the loop of \<^verbatim>\<open>fmtCondition\<close>: one \<^verbatim>\<open>switch name\<close>.\<close>

definition fmtCondition_case :: "string \<Rightarrow> string \<Rightarrow> string" where
  "fmtCondition_case condition name =
     (if name = ''subtopic'' \<or> name = ''publisher'' \<or> name = ''name'' \<or> name = ''protocol''
        then condition @ '' AND '' @ name @ '' = :'' @ name
      else if name = ''v'' then condition @ '' AND value = :value''
      else if name = ''vb'' then condition @ '' AND bool_value = :bool_value''
      else if name = ''vs'' then condition @ '' AND string_value = :string_value''
      else if name = ''vd'' then condition @ '' AND data_value = :data_value''
      else if name = ''from'' then condition @ '' AND time >= :from''
      else if name = ''to'' then condition @ '' AND time < :to''
      else condition)"

text \<open>
  \<^verbatim>\<open>fmtCondition(chanID, rpm)\<close>, with the order \<open>ks\<close> in which the loop visits
  the keys of \<open>query\<close>.
\<close>

definition fmtCondition :: "string list \<Rightarrow> string \<Rightarrow> PageMetadata \<Rightarrow> string" where
  "fmtCondition ks chanID rpm =
     (let condition = ''channel = :channel'' in
      case Marshal rpm of
        None \<Rightarrow> condition
      | Some meta \<Rightarrow> foldl fmtCondition_case condition ks)"

subsection \<open>Rows, messages and the database\<close>

text \<open>The values of the parameter map \<^verbatim>\<open>map[string]interface{}\<close>.\<close>

datatype param = PString string | PUint64 "64 word" | PFloat64 float64 | PBool bool

text \<open>
  \<^verbatim>\<open>dbMessage\<close>: a row of the SenML table. The record \<^verbatim>\<open>senml.Message\<close>
  belongs to another package and is the type parameter \<open>'s\<close>.
\<close>

record 's dbMessage =
  db_ID :: string
  Message :: 's

text \<open>\<^verbatim>\<open>jsonMessage\<close>: a row of a JSON table.\<close>

record jsonMessage =
  msg_ID :: string
  msg_Channel :: string
  msg_Created :: "64 word"
  msg_Subtopic :: string
  msg_Publisher :: string
  msg_Protocol :: string
  msg_Payload :: "8 word list"

text \<open>The dynamic values (\<^verbatim>\<open>interface{}\<close>) stored in a generic message.\<close>

datatype val = VNil | VString string | VInt64 "64 word" | VJson json

text \<open>
  \<^verbatim>\<open>readers.Message\<close> is \<^verbatim>\<open>interface{}\<close>: \<^verbatim>\<open>ReadAll\<close> stores either a
  \<^verbatim>\<open>senml.Message\<close> or a \<^verbatim>\<open>map[string]interface{}\<close> in it.
\<close>

datatype 's message = Typed 's | Generic "string \<rightharpoonup> val"

text \<open>
  Modelled from the spec: \<^verbatim>\<open>readers.MessagesPage\<close>, the page metadata, the total
  and the messages, as \<^verbatim>\<open>ReadAll\<close> fills them.
\<close>

record 's MessagesPage =
  Metadata :: PageMetadata
  Total :: "64 word"
  Messages :: "'s message list"

text \<open>The zero values \<^verbatim>\<open>readers.PageMetadata{}\<close> and \<^verbatim>\<open>readers.MessagesPage{}\<close>.\<close>

definition zeroPageMetadata :: PageMetadata where
  "zeroPageMetadata =
     \<lparr>Format = [], Subtopic = [], Publisher = [], Name = [], Protocol = [],
      Value = Finite 0, BoolValue = False, StringValue = [], DataValue = [],
      From = Finite 0, To = Finite 0, Limit = 0, Offset = 0\<rparr>"

definition zeroMessagesPage :: "'s MessagesPage" where
  "zeroMessagesPage = \<lparr>Metadata = zeroPageMetadata, Total = 0, Messages = []\<rparr>"

text \<open>
  What \<^verbatim>\<open>ReadAll\<close> calls and does not define: the named query of
  \<^verbatim>\<open>sqlx\<close> (an error, or the rows that \<^verbatim>\<open>rows.Next\<close> delivers), the three
  scans of a row, the JSON decoder applied to a payload column, and
  \<^verbatim>\<open>jsont.ParseFlat\<close>.
\<close>

record ('row, 's) database =
  NamedQuery :: "string \<Rightarrow> (string \<rightharpoonup> param) \<Rightarrow> error + 'row list"
  StructScan_dbMessage :: "'row \<Rightarrow> error + 's dbMessage"
  StructScan_jsonMessage :: "'row \<Rightarrow> error + jsonMessage"
  Scan_uint64 :: "'row \<Rightarrow> error + 64 word"
  Unmarshal_payload :: "8 word list \<Rightarrow> error + json"
  ParseFlat :: "val \<Rightarrow> val"

subsection \<open>Decoding rows\<close>

text \<open>\<^verbatim>\<open>m[key]\<close> on a Go map: the zero value when the key is absent.\<close>

definition index_map :: "(string \<rightharpoonup> val) \<Rightarrow> string \<Rightarrow> val" where
  "index_map m key = (case m key of None \<Rightarrow> VNil | Some v \<Rightarrow> v)"

definition toMap :: "('row, 's) database \<Rightarrow> jsonMessage \<Rightarrow> error + (string \<rightharpoonup> val)" where
  "toMap db msg =
     (let ret = [''id'' \<mapsto> VString (msg_ID msg),
                 ''channel'' \<mapsto> VString (msg_Channel msg),
                 ''created'' \<mapsto> VInt64 (msg_Created msg),
                 ''subtopic'' \<mapsto> VString (msg_Subtopic msg),
                 ''publisher'' \<mapsto> VString (msg_Publisher msg),
                 ''protocol'' \<mapsto> VString (msg_Protocol msg),
                 ''payload'' \<mapsto> VJson (JObject [])]
      in case Unmarshal_payload db (msg_Payload msg) of
           Inl err \<Rightarrow> Inl err
         | Inr pld \<Rightarrow> Inr (ret(''payload'' \<mapsto> VJson pld)))"

text \<open>
  The two loops over \<^verbatim>\<open>rows.Next()\<close>. \<open>msgs\<close> is \<^verbatim>\<open>page.Messages\<close>; a
  \<^verbatim>\<open>return\<close> inside the loop is the error it returns.
\<close>

fun scan_typed :: "('row, 's) database \<Rightarrow> 'row list \<Rightarrow> 's message list \<Rightarrow> error + 's message list" where
  "scan_typed db [] msgs = Inr msgs"
| "scan_typed db (r # rows) msgs =
     (case StructScan_dbMessage db r of
        Inl err \<Rightarrow> Inl (Wrap errReadMessages err)
      | Inr msg \<Rightarrow> scan_typed db rows (msgs @ [Typed (Message msg)]))"

fun scan_generic :: "('row, 's) database \<Rightarrow> 'row list \<Rightarrow> 's message list \<Rightarrow> error + 's message list" where
  "scan_generic db [] msgs = Inr msgs"
| "scan_generic db (r # rows) msgs =
     (case StructScan_jsonMessage db r of
        Inl err \<Rightarrow> Inl (Wrap errReadMessages err)
      | Inr msg \<Rightarrow>
          (case toMap db msg of
             Inl err \<Rightarrow> Inl (Wrap errReadMessages err)
           | Inr m \<Rightarrow>
               scan_generic db rows
                 (msgs @ [Generic (m(''payload'' \<mapsto> ParseFlat db (index_map m ''payload'')))])))"

subsection \<open>ReadAll\<close>

definition select_query :: "string \<Rightarrow> string \<Rightarrow> string \<Rightarrow> string" where
  "select_query table condition order =
     ''SELECT * FROM '' @ table @ [CHR 0x0A] @ ''    WHERE '' @ condition
       @ '' ORDER BY '' @ order @ '' DESC'' @ [CHR 0x0A, CHR 0x09]
       @ ''LIMIT :limit OFFSET :offset;''"

definition count_query :: "string \<Rightarrow> string \<Rightarrow> string" where
  "count_query table condition =
     ''SELECT COUNT(*) FROM '' @ table @ '' WHERE '' @ condition @ '';''"

definition query_params :: "string \<Rightarrow> PageMetadata \<Rightarrow> (string \<rightharpoonup> param)" where
  "query_params chanID rpm =
     [''channel'' \<mapsto> PString chanID,
      ''limit'' \<mapsto> PUint64 (Limit rpm),
      ''offset'' \<mapsto> PUint64 (Offset rpm),
      ''subtopic'' \<mapsto> PString (Subtopic rpm),
      ''publisher'' \<mapsto> PString (Publisher rpm),
      ''name'' \<mapsto> PString (Name rpm),
      ''protocol'' \<mapsto> PString (Protocol rpm),
      ''value'' \<mapsto> PFloat64 (Value rpm),
      ''bool_value'' \<mapsto> PBool (BoolValue rpm),
      ''string_value'' \<mapsto> PString (StringValue rpm),
      ''data_value'' \<mapsto> PString (DataValue rpm),
      ''from'' \<mapsto> PFloat64 (From rpm),
      ''to'' \<mapsto> PFloat64 (To rpm)]"

text \<open>The first four lines of \<^verbatim>\<open>ReadAll\<close>: the ordering column and the table.\<close>

definition order_column :: "PageMetadata \<Rightarrow> string" where
  "order_column rpm = (if Format rpm = [] then ''time'' else ''created'')"

definition with_table :: "PageMetadata \<Rightarrow> PageMetadata" where
  "with_table rpm = (if Format rpm = [] then rpm\<lparr>Format := defTable\<rparr> else rpm)"

text \<open>The two queries that \<^verbatim>\<open>ReadAll\<close> formats, and the \<^verbatim>\<open>switch rpm.Format\<close>.\<close>

definition first_query :: "string list \<Rightarrow> string \<Rightarrow> PageMetadata \<Rightarrow> string" where
  "first_query ks1 chanID rpm0 =
     (let order = order_column rpm0;
          rpm = with_table rpm0
      in select_query (Format rpm) (fmtCondition ks1 chanID rpm) order)"

definition second_query :: "string list \<Rightarrow> string \<Rightarrow> PageMetadata \<Rightarrow> string" where
  "second_query ks2 chanID rpm0 =
     (let rpm = with_table rpm0
      in count_query (Format rpm) (fmtCondition ks2 chanID rpm))"

definition decode_rows ::
  "('row, 's) database \<Rightarrow> string \<Rightarrow> 'row list \<Rightarrow> error + 's message list" where
  "decode_rows db fmt rows =
     (if fmt = defTable then scan_typed db rows [] else scan_generic db rows [])"

text \<open>The tail of \<^verbatim>\<open>ReadAll\<close>, from the count query on.\<close>

definition read_total ::
  "('row, 's) database \<Rightarrow> string \<Rightarrow> (string \<rightharpoonup> param) \<Rightarrow> 's MessagesPage
     \<Rightarrow> 's MessagesPage \<times> error option" where
  "read_total db q params page =
     (case NamedQuery db q params of
        Inl err \<Rightarrow> (zeroMessagesPage, Some (Wrap errReadMessages err))
      | Inr rows \<Rightarrow>
          (case rows of
             [] \<Rightarrow> (page\<lparr>Total := 0\<rparr>, None)
           | r # _ \<Rightarrow>
               (case Scan_uint64 db r of
                  Inl err \<Rightarrow> (page, Some err)
                | Inr total' \<Rightarrow> (page\<lparr>Total := total'\<rparr>, None))))"

text \<open>
  \<^verbatim>\<open>ReadAll(chanID, rpm)\<close> on the database \<open>db\<close>. \<open>ks1\<close> and \<open>ks2\<close> are the
  orders in which the two calls of \<^verbatim>\<open>fmtCondition\<close> visit the keys of their map.
  The result is the pair that Go returns: the page and the error (\<open>None\<close> is
  \<^verbatim>\<open>nil\<close>).
\<close>

definition ReadAll ::
  "('row, 's) database \<Rightarrow> string list \<Rightarrow> string list \<Rightarrow> string \<Rightarrow> PageMetadata
     \<Rightarrow> 's MessagesPage \<times> error option" where
  "ReadAll db ks1 ks2 chanID rpm0 =
     (let rpm = with_table rpm0;
          params = query_params chanID rpm
      in case NamedQuery db (first_query ks1 chanID rpm0) params of
           Inl err \<Rightarrow> (zeroMessagesPage, Some (Wrap errReadMessages err))
         | Inr rows \<Rightarrow>
             (case decode_rows db (Format rpm) rows of
                Inl err \<Rightarrow> (zeroMessagesPage, Some err)
              | Inr msgs \<Rightarrow>
                  read_total db (second_query ks2 chanID rpm0) params
                    \<lparr>Metadata = rpm, Total = 0, Messages = msgs\<rparr>))"

section \<open>The predicate as a list of clauses\<close>

text \<open>
  The three comparisons that \<^verbatim>\<open>fmtCondition\<close> writes, and a clause
  \<^verbatim>\<open><column> <comparison> :<parameter>\<close> as a triple.
\<close>

datatype comparison = Eq | Ge | Lt

text \<open>
  A clause: the column, the comparison, the name of the parameter.
\<close>

type_synonym clause = "string \<times> comparison \<times> string"

text \<open>
  The text of a comparison and of a clause.
\<close>

fun render_comparison :: "comparison \<Rightarrow> string" where
  "render_comparison Eq = ''=''"
| "render_comparison Ge = ''>=''"
| "render_comparison Lt = ''<''"

definition render_clause :: "clause \<Rightarrow> string" where
  "render_clause c = (case c of (col, cmp, p) \<Rightarrow> col @ '' '' @ render_comparison cmp @ '' :'' @ p)"

text \<open>
  The clause that the \<^verbatim>\<open>switch\<close> of \<^verbatim>\<open>fmtCondition\<close> adds for a key of
  \<open>query\<close>: the same cases, in the same order, as \<open>fmtCondition_case\<close>.
\<close>

definition clause_of :: "string \<Rightarrow> clause option" where
  "clause_of name =
     (if name = ''subtopic'' \<or> name = ''publisher'' \<or> name = ''name'' \<or> name = ''protocol''
        then Some (name, Eq, name)
      else if name = ''v'' then Some (''value'', Eq, ''value'')
      else if name = ''vb'' then Some (''bool_value'', Eq, ''bool_value'')
      else if name = ''vs'' then Some (''string_value'', Eq, ''string_value'')
      else if name = ''vd'' then Some (''data_value'', Eq, ''data_value'')
      else if name = ''from'' then Some (''time'', Ge, ''from'')
      else if name = ''to'' then Some (''time'', Lt, ''to'')
      else None)"

text \<open>
  The text that one round of the loop appends to the condition.
\<close>

definition and_clause :: "string \<Rightarrow> string" where
  "and_clause name = (case clause_of name of None \<Rightarrow> [] | Some c \<Rightarrow> '' AND '' @ render_clause c)"

text \<open>
  The text of a predicate: \<^verbatim>\<open>channel = :channel\<close>, then the clauses, each after
  \<^verbatim>\<open> AND \<close>.
\<close>

definition render_predicate :: "clause list \<Rightarrow> string" where
  "render_predicate cs = ''channel = :channel'' @ concat (map (\<lambda>c. '' AND '' @ render_clause c) cs)"

text \<open>
  The filters of a request, as the specification lists them: the four string filters,
  the four value filters, the lower and the upper time bound, each one when its field
  is not the zero value.
\<close>

definition filter_if :: "bool \<Rightarrow> clause \<Rightarrow> clause list" where
  "filter_if present c = (if present then [c] else [])"

definition present_filters :: "PageMetadata \<Rightarrow> clause list" where
  "present_filters rpm =
       filter_if (Subtopic rpm \<noteq> []) (''subtopic'', Eq, ''subtopic'')
     @ filter_if (Publisher rpm \<noteq> []) (''publisher'', Eq, ''publisher'')
     @ filter_if (Name rpm \<noteq> []) (''name'', Eq, ''name'')
     @ filter_if (Protocol rpm \<noteq> []) (''protocol'', Eq, ''protocol'')
     @ filter_if (Value rpm \<noteq> Finite 0) (''value'', Eq, ''value'')
     @ filter_if (BoolValue rpm) (''bool_value'', Eq, ''bool_value'')
     @ filter_if (StringValue rpm \<noteq> []) (''string_value'', Eq, ''string_value'')
     @ filter_if (DataValue rpm \<noteq> []) (''data_value'', Eq, ''data_value'')
     @ filter_if (From rpm \<noteq> Finite 0) (''time'', Ge, ''from'')
     @ filter_if (To rpm \<noteq> Finite 0) (''time'', Lt, ''to'')"

text \<open>
  The JSON tags of \<^verbatim>\<open>readers.PageMetadata\<close>, in the order \<open>Marshal\<close> writes them.
\<close>

definition all_tags :: "string list" where
  "all_tags = [''format'', ''subtopic'', ''publisher'', ''name'', ''protocol'', ''v'', ''vb'',
     ''vs'', ''vd'', ''from'', ''to'', ''limit'', ''offset'']"

subsection \<open>What the database does with a clause\<close>

text \<open>
  The meaning that PostgreSQL gives to a clause on a row, for the comparisons above:
  \<^verbatim>\<open>=\<close> is equality of the two values, \<^verbatim>\<open>>=\<close> and \<^verbatim>\<open><\<close> compare two finite
  numbers. A row and the parameters are maps from names to values; a clause on a
  missing column or parameter does not hold. This is the database's part, not the
  reader's: it is used only to say which rows a time bound lets through.
\<close>

fun number_of :: "param \<Rightarrow> rat option" where
  "number_of (PFloat64 (Finite x)) = Some x"
| "number_of _ = None"

definition compare_values :: "comparison \<Rightarrow> param \<Rightarrow> param \<Rightarrow> bool" where
  "compare_values cmp a b =
     (case cmp of
        Eq \<Rightarrow> a = b
      | Ge \<Rightarrow> (case (number_of a, number_of b) of (Some x, Some y) \<Rightarrow> y \<le> x | _ \<Rightarrow> False)
      | Lt \<Rightarrow> (case (number_of a, number_of b) of (Some x, Some y) \<Rightarrow> x < y | _ \<Rightarrow> False))"

definition holds :: "(string \<rightharpoonup> param) \<Rightarrow> (string \<rightharpoonup> param) \<Rightarrow> clause \<Rightarrow> bool" where
  "holds row params c =
     (case c of (col, cmp, p) \<Rightarrow>
        (case (row col, params p) of (Some a, Some b) \<Rightarrow> compare_values cmp a b | _ \<Rightarrow> False))"

text \<open>
  A row is selected when the channel clause and every other clause hold.
\<close>

definition selects :: "(string \<rightharpoonup> param) \<Rightarrow> (string \<rightharpoonup> param) \<Rightarrow> clause list \<Rightarrow> bool" where
  "selects row params cs \<longleftrightarrow>
     holds row params (''channel'', Eq, ''channel'') \<and> list_all (holds row params) cs"

subsection \<open>The message decoded from a row\<close>

text \<open>
  \<open>typed_message db r m\<close>: \<open>m\<close> is the SenML record that \<^verbatim>\<open>StructScan\<close> reads
  from the row \<open>r\<close>.
\<close>

definition typed_message :: "('row, 's) database \<Rightarrow> 'row \<Rightarrow> 's message \<Rightarrow> bool" where
  "typed_message db r m =
     (case StructScan_dbMessage db r of Inl err \<Rightarrow> False | Inr msg \<Rightarrow> m = Typed (Message msg))"

text \<open>
  \<open>generic_message db r m\<close>: \<open>m\<close> is the generic mapping of the row \<open>r\<close>, the six
  scalar columns and, under \<^verbatim>\<open>payload\<close>, the decoded JSON payload passed through
  \<^verbatim>\<open>ParseFlat\<close>.
\<close>

definition generic_message :: "('row, 's) database \<Rightarrow> 'row \<Rightarrow> 's message \<Rightarrow> bool" where
  "generic_message db r m =
     (case StructScan_jsonMessage db r of
        Inl err \<Rightarrow> False
      | Inr msg \<Rightarrow>
          (case Unmarshal_payload db (msg_Payload msg) of
             Inl err \<Rightarrow> False
           | Inr pld \<Rightarrow>
               m = Generic [''id'' \<mapsto> VString (msg_ID msg),
                            ''channel'' \<mapsto> VString (msg_Channel msg),
                            ''created'' \<mapsto> VInt64 (msg_Created msg),
                            ''subtopic'' \<mapsto> VString (msg_Subtopic msg),
                            ''publisher'' \<mapsto> VString (msg_Publisher msg),
                            ''protocol'' \<mapsto> VString (msg_Protocol msg),
                            ''payload'' \<mapsto> ParseFlat db (VJson pld)]))"

section \<open>Example requests and databases\<close>

text \<open>
  A database for the examples: \<open>query\<close> answers a query text with an error or with
  rows (numbered), every row scans to the same SenML record and to the same JSON row
  whose payload column is the one byte \<^verbatim>\<open>{\<close>; \<open>scan\<close> reads the count, \<open>decode\<close>
  is the JSON decoder, \<^verbatim>\<open>ParseFlat\<close> is the identity.
\<close>

definition example_db ::
  "(string \<Rightarrow> error + nat list) \<Rightarrow> (nat \<Rightarrow> error + 64 word) \<Rightarrow> (8 word list \<Rightarrow> error + json)
     \<Rightarrow> (nat, string) database" where
  "example_db query scan decode =
     \<lparr>NamedQuery = (\<lambda>q params. query q),
      StructScan_dbMessage = (\<lambda>r. Inr \<lparr>db_ID = ''1'', Message = ''senml record''\<rparr>),
      StructScan_jsonMessage = (\<lambda>r. Inr \<lparr>msg_ID = ''1'', msg_Channel = ''ch1'', msg_Created = 7,
         msg_Subtopic = [], msg_Publisher = ''p1'', msg_Protocol = ''mqtt'', msg_Payload = [0x7B]\<rparr>),
      Scan_uint64 = scan,
      Unmarshal_payload = decode,
      ParseFlat = (\<lambda>v. v)\<rparr>"

text \<open>
  The count query, told from the page query by its first words.
\<close>

definition is_count :: "string \<Rightarrow> bool" where
  "is_count q = prefix ''SELECT COUNT'' q"

text \<open>
  A request with a subtopic and a publisher, and what \<open>Marshal\<close> makes of it.
\<close>

definition filter_request :: PageMetadata where
  "filter_request = zeroPageMetadata\<lparr>Subtopic := ''temp'', Publisher := ''p1''\<rparr>"

definition filter_request_meta :: "(string \<times> json) list" where
  "filter_request_meta =
     [(''subtopic'', JString ''temp''), (''publisher'', JString ''p1''),
      (''limit'', JNumber 0), (''offset'', JNumber 0)]"

text \<open>
  A database on which every query fails, with the text of the query as the error.
\<close>

definition echo_db :: "(nat, string) database" where
  "echo_db = example_db (\<lambda>q. Inl (New q)) (\<lambda>r. Inr 0) (\<lambda>b. Inr (JObject []))"

text \<open>
  An order of the keys of a request that sets no filter.
\<close>

definition default_keys :: "string list" where
  "default_keys = [''offset'', ''format'', ''limit'']"

text \<open>
  The end of the page query: the ordering column, the limit and the offset.
\<close>

definition order_tail :: "string \<Rightarrow> string" where
  "order_tail column =
     '' ORDER BY '' @ column @ '' DESC'' @ [CHR 0x0A, CHR 0x09] @ ''LIMIT :limit OFFSET :offset;''"

text \<open>
  A database that answers the page query with one row and the count query with the
  rows \<open>count_rows\<close>.
\<close>

definition page_db :: "nat list \<Rightarrow> (nat \<Rightarrow> error + 64 word) \<Rightarrow> (8 word list \<Rightarrow> error + json)
    \<Rightarrow> (nat, string) database" where
  "page_db count_rows scan decode =
     example_db (\<lambda>q. if is_count q then Inr count_rows else Inr [1]) scan decode"

text \<open>
  The page read from \<open>page_db\<close> for the zero request, before the total is set.
\<close>

definition typed_page :: "string MessagesPage" where
  "typed_page =
     \<lparr>Metadata = zeroPageMetadata\<lparr>Format := ''messages''\<rparr>, Total = 0,
      Messages = [Typed ''senml record'']\<rparr>"

text \<open>
  A request for the table \<^verbatim>\<open>json\<close>, and the generic mapping of the example row.
\<close>

definition json_request :: PageMetadata where
  "json_request = zeroPageMetadata\<lparr>Format := ''json'', Limit := 10\<rparr>"

definition generic_record :: "string \<rightharpoonup> val" where
  "generic_record =
     [''id'' \<mapsto> VString ''1'', ''channel'' \<mapsto> VString ''ch1'', ''created'' \<mapsto> VInt64 7,
      ''subtopic'' \<mapsto> VString [], ''publisher'' \<mapsto> VString ''p1'',
      ''protocol'' \<mapsto> VString ''mqtt'', ''payload'' \<mapsto> VJson (JObject [])]"

text \<open>
  A request with both time bounds, what \<open>Marshal\<close> makes of it, and a row at a given time.
\<close>

definition time_request :: PageMetadata where
  "time_request = zeroPageMetadata\<lparr>From := Finite 10, To := Finite 20\<rparr>"

definition time_request_meta :: "(string \<times> json) list" where
  "time_request_meta =
     [(''from'', JNumber 10), (''to'', JNumber 20), (''limit'', JNumber 0), (''offset'', JNumber 0)]"

definition row_at :: "rat \<Rightarrow> (string \<rightharpoonup> param)" where
  "row_at t = [''channel'' \<mapsto> PString ''ch1'', ''time'' \<mapsto> PFloat64 (Finite t)]"

text \<open>
  A request that \<^verbatim>\<open>json.Marshal\<close> refuses: its value filter is not a number.
\<close>

definition nan_request :: PageMetadata where
  "nan_request = zeroPageMetadata\<lparr>Subtopic := ''temp'', Value := NaN\<rparr>"

text \<open>
  A JSON decoder that rejects every payload, and one that reads the empty object.
\<close>

definition bad_json :: "8 word list \<Rightarrow> error + json" where
  "bad_json b = Inl (New ''unexpected end of JSON input'')"

definition empty_object :: "8 word list \<Rightarrow> error + json" where
  "empty_object b = Inr (JObject [])"


section \<open>The condition builder\<close>

lemma fmtCondition_case_and_clause: "fmtCondition_case condition name = condition @ and_clause name"
  by (simp add: fmtCondition_case_def and_clause_def clause_of_def render_clause_def)

lemma foldl_fmtCondition_case:
  "foldl fmtCondition_case condition ks = condition @ concat (map and_clause ks)"
  by (induction ks arbitrary: condition) (simp_all add: fmtCondition_case_and_clause)

lemma concat_and_clause:
  "concat (map and_clause ks) =
   concat (map (\<lambda>c. '' AND '' @ render_clause c) (List.map_filter clause_of ks))"
  by (induction ks) (simp_all add: and_clause_def List.map_filter_def split: option.splits)

lemma fmtCondition_render:
  "Marshal rpm = Some meta \<Longrightarrow>
   fmtCondition ks chanID rpm = render_predicate (List.map_filter clause_of ks)"
  by (simp add: fmtCondition_def render_predicate_def foldl_fmtCondition_case concat_and_clause)

lemma keys_string: "map fst (omitempty_string t s) = (if s = [] then [] else [t])"
  by (simp add: omitempty_string_def)

lemma keys_float: "map fst (omitempty_float t f) = (if f = Finite 0 then [] else [t])"
  by (simp add: omitempty_float_def)

lemma keys_bool: "map fst (omitempty_bool t b) = (if b then [t] else [])"
  by (simp add: omitempty_bool_def)

lemma subseq_if: "subseq (if b then [] else [t]) [t]" "subseq (if b then [t] else []) [t]"
  by simp_all

lemma subseq_step: "subseq xs [t] \<Longrightarrow> subseq ys ts \<Longrightarrow> subseq (xs @ ys) (t # ts)"
  using list_emb_append_mono [of "(=)" xs "[t]" ys ts] by simp

lemma Marshal_keys_subseq:
  assumes "Marshal rpm = Some meta"
  shows "subseq (map fst meta) all_tags"
proof -
  have "meta = omitempty_string ''format'' (Format rpm)
            @ omitempty_string ''subtopic'' (Subtopic rpm)
            @ omitempty_string ''publisher'' (Publisher rpm)
            @ omitempty_string ''name'' (Name rpm)
            @ omitempty_string ''protocol'' (Protocol rpm)
            @ omitempty_float ''v'' (Value rpm)
            @ omitempty_bool ''vb'' (BoolValue rpm)
            @ omitempty_string ''vs'' (StringValue rpm)
            @ omitempty_string ''vd'' (DataValue rpm)
            @ omitempty_float ''from'' (From rpm)
            @ omitempty_float ''to'' (To rpm)
            @ [(''limit'', JNumber (of_nat (unat (Limit rpm)))),
               (''offset'', JNumber (of_nat (unat (Offset rpm))))]"
    using assms by (simp add: Marshal_def split: if_splits)
  then show ?thesis
    unfolding all_tags_def
    apply (simp only: map_append keys_string keys_float keys_bool)
    apply (intro subseq_step subseq_if)
    apply simp
    done
qed

lemma distinct_all_tags: "distinct all_tags"
  by (simp add: all_tags_def)

lemma Marshal_keys_distinct:
  assumes "Marshal rpm = Some meta"
  shows "distinct (map fst meta)"
proof -
  have "map fst meta \<in> set (subseqs all_tags)"
    using Marshal_keys_subseq [OF assms] by (simp only: in_set_subseqs)
  then show ?thesis
    using distinct_all_tags by (rule subseqs_distinctD)
qed

lemma map_filter_append: "List.map_filter f (xs @ ys) = List.map_filter f xs @ List.map_filter f ys"
  by (simp add: List.map_filter_def)

lemma mf_string:
  "List.map_filter clause_of (map fst (omitempty_string t s)) =
     (case clause_of t of None \<Rightarrow> [] | Some c \<Rightarrow> filter_if (s \<noteq> []) c)"
  by (simp add: omitempty_string_def filter_if_def List.map_filter_def split: option.splits)

lemma mf_float:
  "List.map_filter clause_of (map fst (omitempty_float t f)) =
     (case clause_of t of None \<Rightarrow> [] | Some c \<Rightarrow> filter_if (f \<noteq> Finite 0) c)"
  by (simp add: omitempty_float_def filter_if_def List.map_filter_def split: option.splits)

lemma mf_bool:
  "List.map_filter clause_of (map fst (omitempty_bool t b)) =
     (case clause_of t of None \<Rightarrow> [] | Some c \<Rightarrow> filter_if b c)"
  by (simp add: omitempty_bool_def filter_if_def List.map_filter_def split: option.splits)

lemma clause_of_tags:
  "clause_of ''format'' = None"
  "clause_of ''subtopic'' = Some (''subtopic'', Eq, ''subtopic'')"
  "clause_of ''publisher'' = Some (''publisher'', Eq, ''publisher'')"
  "clause_of ''name'' = Some (''name'', Eq, ''name'')"
  "clause_of ''protocol'' = Some (''protocol'', Eq, ''protocol'')"
  "clause_of ''v'' = Some (''value'', Eq, ''value'')"
  "clause_of ''vb'' = Some (''bool_value'', Eq, ''bool_value'')"
  "clause_of ''vs'' = Some (''string_value'', Eq, ''string_value'')"
  "clause_of ''vd'' = Some (''data_value'', Eq, ''data_value'')"
  "clause_of ''from'' = Some (''time'', Ge, ''from'')"
  "clause_of ''to'' = Some (''time'', Lt, ''to'')"
  "clause_of ''limit'' = None"
  "clause_of ''offset'' = None"
  by (simp_all add: clause_of_def)

lemma mf_tail:
  "List.map_filter clause_of (map fst [(''limit'', a), (''offset'', b)]) = []"
  by (simp add: clause_of_tags)

lemma Marshal_present_filters:
  assumes "Marshal rpm = Some meta"
  shows "List.map_filter clause_of (map fst meta) = present_filters rpm"
proof -
  have "meta = omitempty_string ''format'' (Format rpm)
            @ omitempty_string ''subtopic'' (Subtopic rpm)
            @ omitempty_string ''publisher'' (Publisher rpm)
            @ omitempty_string ''name'' (Name rpm)
            @ omitempty_string ''protocol'' (Protocol rpm)
            @ omitempty_float ''v'' (Value rpm)
            @ omitempty_bool ''vb'' (BoolValue rpm)
            @ omitempty_string ''vs'' (StringValue rpm)
            @ omitempty_string ''vd'' (DataValue rpm)
            @ omitempty_float ''from'' (From rpm)
            @ omitempty_float ''to'' (To rpm)
            @ [(''limit'', JNumber (of_nat (unat (Limit rpm)))),
               (''offset'', JNumber (of_nat (unat (Offset rpm))))]"
    using assms by (simp add: Marshal_def split: if_splits)
  then show ?thesis
    by (simp only: map_append map_filter_append mf_string mf_float mf_bool mf_tail
        clause_of_tags option.case present_filters_def append_Nil append_Nil2)
qed

lemma range_order_mset:
  assumes "Marshal rpm = Some meta" "range_order (Unmarshal_map meta) ks"
  shows "mset ks = mset (map fst meta)"
proof -
  have "distinct ks" "set ks = set (map fst meta)"
    using assms(2) by (simp_all add: range_order_def Unmarshal_map_def dom_map_of_conv_image_fst)
  then show ?thesis
    using Marshal_keys_distinct [OF assms(1)] set_eq_iff_mset_eq_distinct by blast
qed

lemma mset_map_filter: "mset xs = mset ys \<Longrightarrow> mset (List.map_filter f xs) = mset (List.map_filter f ys)"
  by (simp add: List.map_filter_def)

text \<open>
  Claim C3, amended: for a request that serialises, whatever the order in which the loop
  visits the keys, the condition is \<^verbatim>\<open>channel = :channel\<close> followed by one
  \<^verbatim>\<open>AND\<close> clause for each filter that is present and by nothing else: the clauses
  are, as a multiset, exactly the filters present. Their order is the order of the
  visit, which is not fixed.
\<close>

theorem fmtCondition_combines_present_filters:
  assumes "Marshal rpm = Some meta" and "range_order (Unmarshal_map meta) ks"
  shows "fmtCondition ks chanID rpm = render_predicate (List.map_filter clause_of ks)
       \<and> mset (List.map_filter clause_of ks) = mset (present_filters rpm)"
  using fmtCondition_render [OF assms(1), of ks chanID]
    mset_map_filter [OF range_order_mset [OF assms], of clause_of]
    Marshal_present_filters [OF assms(1)] by simp

lemma Marshal_filter_request: "Marshal filter_request = Some filter_request_meta"
  by (simp add: Marshal_def filter_request_def filter_request_meta_def zeroPageMetadata_def
      encodable_def omitempty_string_def omitempty_float_def omitempty_bool_def)

lemma range_order_filter_request:
  "range_order (Unmarshal_map filter_request_meta) [''subtopic'', ''publisher'', ''limit'', ''offset'']"
  "range_order (Unmarshal_map filter_request_meta) [''publisher'', ''subtopic'', ''offset'', ''limit'']"
  by (auto simp add: range_order_def Unmarshal_map_def filter_request_meta_def)

text \<open>
  Claim C3, as stated, fails: the clauses are not in a fixed order. The request with a
  subtopic and a publisher has the keys \<open>subtopic, publisher, limit, offset\<close>; the
  loop may visit them in either of the two orders below, and the two conditions differ.
\<close>

theorem fmtCondition_clause_order_counterexample:
  "Marshal filter_request = Some filter_request_meta
   \<and> range_order (Unmarshal_map filter_request_meta) [''subtopic'', ''publisher'', ''limit'', ''offset'']
   \<and> range_order (Unmarshal_map filter_request_meta) [''publisher'', ''subtopic'', ''offset'', ''limit'']
   \<and> fmtCondition [''subtopic'', ''publisher'', ''limit'', ''offset''] ''ch1'' filter_request
       = ''channel = :channel AND subtopic = :subtopic AND publisher = :publisher''
   \<and> fmtCondition [''publisher'', ''subtopic'', ''offset'', ''limit''] ''ch1'' filter_request
       = ''channel = :channel AND publisher = :publisher AND subtopic = :subtopic''"
  by (simp add: Marshal_filter_request range_order_filter_request fmtCondition_def
      fmtCondition_case_def)

text \<open>
  The request with a subtopic and a publisher, visited publisher first.
\<close>

theorem fmtCondition_combines_present_filters_witness:
  "Marshal filter_request = Some filter_request_meta
   \<and> range_order (Unmarshal_map filter_request_meta) [''publisher'', ''subtopic'', ''offset'', ''limit'']
   \<and> fmtCondition [''publisher'', ''subtopic'', ''offset'', ''limit''] ''ch1'' filter_request
       = render_predicate [(''publisher'', Eq, ''publisher''), (''subtopic'', Eq, ''subtopic'')]
   \<and> mset [(''publisher'', Eq, ''publisher''), (''subtopic'', Eq, ''subtopic'')]
       = mset (present_filters filter_request)"
  using fmtCondition_combines_present_filters
    [OF Marshal_filter_request range_order_filter_request(2), of "''ch1''"]
  by (simp add: Marshal_filter_request range_order_filter_request clause_of_tags)

lemma in_order_sublist:
  assumes "k \<in> set ks"
  shows "sublist (and_clause k) (foldl fmtCondition_case condition ks)"
proof -
  obtain xs ys where "ks = xs @ k # ys"
    using assms by (auto dest: split_list)
  then have "foldl fmtCondition_case condition ks =
      (condition @ concat (map and_clause xs)) @ and_clause k @ concat (map and_clause ys)"
    by (simp add: foldl_fmtCondition_case fmtCondition_case_and_clause)
  then show ?thesis
    by (simp only: sublist_appendI)
qed

lemma range_order_dom:
  "range_order m ks \<Longrightarrow> k \<in> dom m \<Longrightarrow> k \<in> set ks"
  by (simp add: range_order_def)

lemma set_map_filter: "set (List.map_filter f xs) = {y. \<exists>x\<in>set xs. f x = Some y}"
  by (induction xs) (auto simp add: List.map_filter_def)

lemma list_all_filter_irrelevant:
  "P c \<Longrightarrow> list_all P cs = list_all P (filter (\<lambda>x. x \<noteq> c) cs)"
  by (induction cs) auto

lemma holds_time_from:
  "row ''time'' = Some (PFloat64 (Finite t)) \<Longrightarrow> params ''from'' = Some (PFloat64 (Finite t))
   \<Longrightarrow> holds row params (''time'', Ge, ''from'')"
  by (simp add: holds_def compare_values_def)

lemma not_holds_time_to:
  "row ''time'' = Some (PFloat64 (Finite t)) \<Longrightarrow> params ''to'' = Some (PFloat64 (Finite t))
   \<Longrightarrow> \<not> holds row params (''time'', Lt, ''to'')"
  by (simp add: holds_def compare_values_def)

text \<open>
  Claim C5: when the lower time bound is present (the key \<open>from\<close> is in the map
  \<open>query\<close>) the condition contains \<^verbatim>\<open> AND time >= :from\<close>, and when the upper
  bound is present it contains \<^verbatim>\<open> AND time < :to\<close>. The range is half-open: for
  a row whose time equals \<open>from\<close> the lower bound holds, so that the row is selected
  exactly when the other clauses select it; a row whose time equals \<open>to\<close> is not
  selected.
\<close>

theorem time_range_half_open:
  assumes "Marshal rpm = Some meta" and "range_order (Unmarshal_map meta) ks"
  shows "fmtCondition ks chanID rpm = render_predicate (List.map_filter clause_of ks)
    \<and> (''from'' \<in> dom (Unmarshal_map meta) \<longrightarrow>
         sublist '' AND time >= :from'' (fmtCondition ks chanID rpm)
         \<and> (\<forall>row params t.
              row ''time'' = Some (PFloat64 (Finite t)) \<and> params ''from'' = Some (PFloat64 (Finite t))
              \<longrightarrow> selects row params (List.map_filter clause_of ks)
                  = selects row params
                      (filter (\<lambda>c. c \<noteq> (''time'', Ge, ''from'')) (List.map_filter clause_of ks))))
    \<and> (''to'' \<in> dom (Unmarshal_map meta) \<longrightarrow>
         sublist '' AND time < :to'' (fmtCondition ks chanID rpm)
         \<and> (\<forall>row params t.
              row ''time'' = Some (PFloat64 (Finite t)) \<and> params ''to'' = Some (PFloat64 (Finite t))
              \<longrightarrow> \<not> selects row params (List.map_filter clause_of ks)))"
proof (intro conjI impI allI)
  show "fmtCondition ks chanID rpm = render_predicate (List.map_filter clause_of ks)"
    using assms(1) by (rule fmtCondition_render)
next
  assume "''from'' \<in> dom (Unmarshal_map meta)"
  then have "''from'' \<in> set ks" using assms(2) by (simp add: range_order_dom)
  then have "sublist (and_clause ''from'') (foldl fmtCondition_case ''channel = :channel'' ks)"
    by (rule in_order_sublist)
  then show "sublist '' AND time >= :from'' (fmtCondition ks chanID rpm)"
    using assms(1) by (simp add: fmtCondition_def and_clause_def clause_of_tags render_clause_def)
next
  fix row params :: "string \<rightharpoonup> param" and t
  assume "row ''time'' = Some (PFloat64 (Finite t)) \<and> params ''from'' = Some (PFloat64 (Finite t))"
  then have "holds row params (''time'', Ge, ''from'')" by (simp add: holds_time_from)
  then show "selects row params (List.map_filter clause_of ks)
      = selects row params (filter (\<lambda>c. c \<noteq> (''time'', Ge, ''from'')) (List.map_filter clause_of ks))"
    unfolding selects_def using list_all_filter_irrelevant [of "holds row params"] by blast
next
  assume "''to'' \<in> dom (Unmarshal_map meta)"
  then have "''to'' \<in> set ks" using assms(2) by (simp add: range_order_dom)
  then have "sublist (and_clause ''to'') (foldl fmtCondition_case ''channel = :channel'' ks)"
    by (rule in_order_sublist)
  then show "sublist '' AND time < :to'' (fmtCondition ks chanID rpm)"
    using assms(1) by (simp add: fmtCondition_def and_clause_def clause_of_tags render_clause_def)
next
  fix row params :: "string \<rightharpoonup> param" and t
  assume present: "''to'' \<in> dom (Unmarshal_map meta)"
    and "row ''time'' = Some (PFloat64 (Finite t)) \<and> params ''to'' = Some (PFloat64 (Finite t))"
  then have no: "\<not> holds row params (''time'', Lt, ''to'')" by (simp add: not_holds_time_to)
  have "''to'' \<in> set ks" using present assms(2) by (simp add: range_order_dom)
  then have "(''time'', Lt, ''to'') \<in> set (List.map_filter clause_of ks)"
    using clause_of_tags(11) by (simp add: set_map_filter) blast
  then show "\<not> selects row params (List.map_filter clause_of ks)"
    using no by (auto simp add: selects_def list_all_iff)
qed

text \<open>
  Claim C6: the condition always starts with \<^verbatim>\<open>channel = :channel\<close>, and when the
  request does not serialise the condition is exactly \<^verbatim>\<open>channel = :channel\<close>.
  \<^verbatim>\<open>fmtCondition\<close> returns a string and nothing else: there is no error to surface.
\<close>

theorem condition_always_has_channel:
  "prefix ''channel = :channel'' (fmtCondition ks chanID rpm)
   \<and> (Marshal rpm = None \<longrightarrow> fmtCondition ks chanID rpm = ''channel = :channel'')"
  by (simp add: fmtCondition_def Let_def foldl_fmtCondition_case split: option.splits)

section \<open>ReadAll\<close>

lemma scan_typed_wrapped:
  "scan_typed db rows msgs = Inl e \<Longrightarrow> \<exists>c. e = Wrap errReadMessages c"
  by (induction rows arbitrary: msgs) (auto split: sum.splits)

lemma scan_generic_wrapped:
  "scan_generic db rows msgs = Inl e \<Longrightarrow> \<exists>c. e = Wrap errReadMessages c"
  by (induction rows arbitrary: msgs) (auto split: sum.splits)

lemma decode_rows_wrapped:
  "decode_rows db fmt rows = Inl e \<Longrightarrow> \<exists>c. e = Wrap errReadMessages c"
  by (auto simp add: decode_rows_def dest: scan_typed_wrapped scan_generic_wrapped split: if_splits)

lemma scan_typed_messages:
  "scan_typed db rows msgs = Inr out \<Longrightarrow>
   \<exists>ms. out = msgs @ ms \<and> list_all2 (typed_message db) rows ms"
proof (induction rows arbitrary: msgs)
  case Nil
  then show ?case by simp
next
  case (Cons r rows)
  then obtain msg where scan: "StructScan_dbMessage db r = Inr msg"
    and rest: "scan_typed db rows (msgs @ [Typed (Message msg)]) = Inr out"
    by (auto split: sum.splits)
  from Cons.IH [OF rest] obtain ms where
    "out = (msgs @ [Typed (Message msg)]) @ ms" "list_all2 (typed_message db) rows ms"
    by blast
  then have "out = msgs @ (Typed (Message msg) # ms)
      \<and> list_all2 (typed_message db) (r # rows) (Typed (Message msg) # ms)"
    using scan by (simp add: typed_message_def)
  then show ?case by blast
qed

lemma toMap_Inr:
  "toMap db msg = Inr m \<Longrightarrow>
   \<exists>pld. Unmarshal_payload db (msg_Payload msg) = Inr pld
     \<and> m = [''id'' \<mapsto> VString (msg_ID msg),
            ''channel'' \<mapsto> VString (msg_Channel msg),
            ''created'' \<mapsto> VInt64 (msg_Created msg),
            ''subtopic'' \<mapsto> VString (msg_Subtopic msg),
            ''publisher'' \<mapsto> VString (msg_Publisher msg),
            ''protocol'' \<mapsto> VString (msg_Protocol msg),
            ''payload'' \<mapsto> VJson pld]"
  by (auto simp add: toMap_def split: sum.splits)

lemma scan_generic_messages:
  "scan_generic db rows msgs = Inr out \<Longrightarrow>
   \<exists>ms. out = msgs @ ms \<and> list_all2 (generic_message db) rows ms"
proof (induction rows arbitrary: msgs)
  case Nil
  then show ?case by simp
next
  case (Cons r rows)
  then obtain msg m where scan: "StructScan_jsonMessage db r = Inr msg"
    and tm: "toMap db msg = Inr m"
    and rest: "scan_generic db rows
        (msgs @ [Generic (m(''payload'' \<mapsto> ParseFlat db (index_map m ''payload'')))]) = Inr out"
    by (auto split: sum.splits)
  let ?g = "Generic (m(''payload'' \<mapsto> ParseFlat db (index_map m ''payload'')))"
  from Cons.IH [OF rest] obtain ms where
    out: "out = (msgs @ [?g]) @ ms" and all: "list_all2 (generic_message db) rows ms"
    by blast
  have "generic_message db r ?g"
    using scan toMap_Inr [OF tm] by (auto simp add: generic_message_def index_map_def)
  then have "out = msgs @ (?g # ms) \<and> list_all2 (generic_message db) (r # rows) (?g # ms)"
    using out all by simp
  then show ?case by blast
qed

lemma scan_generic_bad_payload:
  assumes "r \<in> set rows" and "StructScan_jsonMessage db r = Inr msg"
    and "Unmarshal_payload db (msg_Payload msg) = Inl e"
  shows "\<exists>c. scan_generic db rows msgs = Inl (Wrap errReadMessages c)"
  using assms(1)
proof (induction rows arbitrary: msgs)
  case Nil
  then show ?case by simp
next
  case (Cons x rows)
  show ?case
  proof (cases "x = r")
    case True
    then show ?thesis using assms(2,3) by (simp add: toMap_def)
  next
    case False
    then have "r \<in> set rows" using Cons.prems by simp
    then show ?thesis
      using Cons.IH by (simp split: sum.splits)
  qed
qed

lemma read_total_success:
  "read_total db q params page = (page', None) \<Longrightarrow>
   Metadata page' = Metadata page \<and> Messages page' = Messages page
   \<and> (case NamedQuery db q params of
         Inl err \<Rightarrow> False
       | Inr [] \<Rightarrow> Total page' = 0
       | Inr (r # rest) \<Rightarrow> Scan_uint64 db r = Inr (Total page'))"
  by (auto simp add: read_total_def split: sum.splits list.splits)

lemma ReadAll_success:
  assumes "ReadAll db ks1 ks2 chanID rpm = (page, None)"
  shows "\<exists>rows. NamedQuery db (first_query ks1 chanID rpm) (query_params chanID (with_table rpm)) = Inr rows
     \<and> decode_rows db (Format (with_table rpm)) rows = Inr (Messages page)
     \<and> Metadata page = with_table rpm
     \<and> (case NamedQuery db (second_query ks2 chanID rpm) (query_params chanID (with_table rpm)) of
           Inl err \<Rightarrow> False
         | Inr [] \<Rightarrow> Total page = 0
         | Inr (r # rest) \<Rightarrow> Scan_uint64 db r = Inr (Total page))"
proof -
  let ?params = "query_params chanID (with_table rpm)"
  obtain rows where rows: "NamedQuery db (first_query ks1 chanID rpm) ?params = Inr rows"
    using assms by (cases "NamedQuery db (first_query ks1 chanID rpm) ?params")
      (simp_all add: ReadAll_def Let_def)
  obtain msgs where msgs: "decode_rows db (Format (with_table rpm)) rows = Inr msgs"
    using assms rows by (cases "decode_rows db (Format (with_table rpm)) rows")
      (simp_all add: ReadAll_def Let_def)
  have "read_total db (second_query ks2 chanID rpm) ?params
      \<lparr>Metadata = with_table rpm, Total = 0, Messages = msgs\<rparr> = (page, None)"
    using assms rows msgs by (simp add: ReadAll_def Let_def)
  from read_total_success [OF this] show ?thesis
    using rows msgs by simp
qed

lemma is_count_first [simp]: "\<not> is_count (first_query ks chanID rpm)"
  by (simp add: is_count_def first_query_def select_query_def Let_def)

lemma is_count_second [simp]: "is_count (second_query ks chanID rpm)"
  by (simp add: is_count_def second_query_def count_query_def Let_def)

lemma fmtCondition_default:
  "fmtCondition default_keys chanID (with_table zeroPageMetadata) = ''channel = :channel''"
  by (simp add: fmtCondition_def Marshal_def with_table_def zeroPageMetadata_def encodable_def
      default_keys_def fmtCondition_case_def)

lemma fmtCondition_json:
  "fmtCondition default_keys chanID (with_table (zeroPageMetadata\<lparr>Format := ''json''\<rparr>))
     = ''channel = :channel''"
  by (simp add: fmtCondition_def Marshal_def with_table_def zeroPageMetadata_def encodable_def
      default_keys_def fmtCondition_case_def)

text \<open>
  Claim C1, as stated, fails: with no format the page query is ordered by \<open>time\<close>, and
  with the format \<open>json\<close> it is ordered by \<open>created\<close>. On \<open>echo_db\<close> the error that
  \<^verbatim>\<open>ReadAll\<close> returns carries the text of the query.
\<close>

theorem order_column_counterexample:
  "ReadAll echo_db default_keys default_keys ''ch1'' zeroPageMetadata =
     (zeroMessagesPage, Some (Wrap errReadMessages (New
        (''SELECT * FROM messages'' @ [CHR 0x0A] @ ''    WHERE channel = :channel ORDER BY time DESC''
           @ [CHR 0x0A, CHR 0x09] @ ''LIMIT :limit OFFSET :offset;''))))
   \<and> ReadAll echo_db default_keys default_keys ''ch1'' (zeroPageMetadata\<lparr>Format := ''json''\<rparr>) =
     (zeroMessagesPage, Some (Wrap errReadMessages (New
        (''SELECT * FROM json'' @ [CHR 0x0A] @ ''    WHERE channel = :channel ORDER BY created DESC''
           @ [CHR 0x0A, CHR 0x09] @ ''LIMIT :limit OFFSET :offset;''))))"
  by (simp add: ReadAll_def echo_db_def example_db_def first_query_def Let_def fmtCondition_default
      fmtCondition_json select_query_def order_column_def)
    (simp add: with_table_def zeroPageMetadata_def defTable_def)

text \<open>
  Claim C1, amended: when the requested format is empty the page query ends with
  \<^verbatim>\<open>ORDER BY time DESC\<close> (and the limit and offset), and when a format is requested
  it ends with \<^verbatim>\<open>ORDER BY created DESC\<close>. This is the query that \<^verbatim>\<open>ReadAll\<close>
  sends: when the database fails on it, \<^verbatim>\<open>ReadAll\<close> fails with that error, wrapped.
\<close>

theorem select_orders_by:
  "(Format rpm = [] \<longrightarrow> suffix (order_tail ''time'') (first_query ks1 chanID rpm))
   \<and> (Format rpm \<noteq> [] \<longrightarrow> suffix (order_tail ''created'') (first_query ks1 chanID rpm))
   \<and> (\<forall>e. NamedQuery db (first_query ks1 chanID rpm) (query_params chanID (with_table rpm)) = Inl e
          \<longrightarrow> ReadAll db ks1 ks2 chanID rpm = (zeroMessagesPage, Some (Wrap errReadMessages e)))"
proof -
  have "first_query ks1 chanID rpm =
      (''SELECT * FROM '' @ Format (with_table rpm) @ [CHR 0x0A] @ ''    WHERE ''
         @ fmtCondition ks1 chanID (with_table rpm)) @ order_tail (order_column rpm)"
    by (simp add: first_query_def select_query_def order_tail_def Let_def)
  then have "suffix (order_tail (order_column rpm)) (first_query ks1 chanID rpm)"
    by (simp only: suffix_def) blast
  then show ?thesis
    by (auto simp add: order_column_def ReadAll_def Let_def split: if_splits)
qed

text \<open>
  The zero request and the request for the table \<open>json\<close>, on \<open>echo_db\<close>.
\<close>

theorem select_orders_by_witness:
  "Format zeroPageMetadata = []
   \<and> suffix (order_tail ''time'') (first_query default_keys ''ch1'' zeroPageMetadata)
   \<and> Format (zeroPageMetadata\<lparr>Format := ''json''\<rparr>) \<noteq> []
   \<and> suffix (order_tail ''created'')
        (first_query default_keys ''ch1'' (zeroPageMetadata\<lparr>Format := ''json''\<rparr>))
   \<and> NamedQuery echo_db (first_query default_keys ''ch1'' zeroPageMetadata)
        (query_params ''ch1'' (with_table zeroPageMetadata))
       = Inl (New (first_query default_keys ''ch1'' zeroPageMetadata))
   \<and> ReadAll echo_db default_keys default_keys ''ch1'' zeroPageMetadata
       = (zeroMessagesPage,
          Some (Wrap errReadMessages (New (first_query default_keys ''ch1'' zeroPageMetadata))))"
  using select_orders_by [of zeroPageMetadata default_keys "''ch1''" echo_db default_keys]
    select_orders_by [of "zeroPageMetadata\<lparr>Format := ''json''\<rparr>" default_keys "''ch1''"
      echo_db default_keys]
  by (simp add: zeroPageMetadata_def echo_db_def example_db_def)

lemma with_table_zero: "with_table zeroPageMetadata = zeroPageMetadata\<lparr>Format := ''messages''\<rparr>"
  by (simp add: with_table_def zeroPageMetadata_def defTable_def)

lemma with_table_json: "with_table json_request = json_request"
  by (simp add: with_table_def json_request_def zeroPageMetadata_def)

lemma Format_json: "Format json_request = ''json''" "Format json_request \<noteq> defTable"
  "Format json_request \<noteq> []"
  by (simp_all add: json_request_def defTable_def)

lemma ReadAll_page_db:
  "ReadAll (page_db count_rows scan decode) ks1 ks2 ''ch1'' zeroPageMetadata =
     (case count_rows of
        [] \<Rightarrow> (typed_page, None)
      | r # rest \<Rightarrow> (case scan r of Inl err \<Rightarrow> (typed_page, Some err)
                     | Inr n \<Rightarrow> (typed_page\<lparr>Total := n\<rparr>, None)))"
  by (simp add: ReadAll_def Let_def page_db_def example_db_def with_table_zero decode_rows_def
      defTable_def read_total_def typed_page_def split: list.splits sum.splits)

lemma ReadAll_page_db_json:
  "ReadAll (page_db count_rows scan decode) ks1 ks2 ''ch1'' json_request =
     (case decode [0x7B] of
        Inl err \<Rightarrow> (zeroMessagesPage, Some (Wrap errReadMessages err))
      | Inr pld \<Rightarrow>
         (let page = \<lparr>Metadata = json_request, Total = 0,
                      Messages = [Generic (generic_record(''payload'' \<mapsto> VJson pld))]\<rparr>
          in case count_rows of
               [] \<Rightarrow> (page, None)
             | r # rest \<Rightarrow> (case scan r of Inl err \<Rightarrow> (page, Some err)
                            | Inr n \<Rightarrow> (page\<lparr>Total := n\<rparr>, None))))"
  by (simp add: ReadAll_def Let_def page_db_def example_db_def with_table_json decode_rows_def
      Format_json defTable_def read_total_def toMap_def index_map_def generic_record_def
      split: list.splits sum.splits)

text \<open>
  Claim C2 against the code: when reading the count fails, \<^verbatim>\<open>ReadAll\<close> returns the
  page it has decoded together with the error of \<^verbatim>\<open>rows.Scan\<close> as it is, not
  wrapped under \<open>errReadMessages\<close>. Every other failure returns the empty page and a
  wrapped error.
\<close>

theorem count_scan_failure_returns_page:
  "ReadAll (page_db [1] (\<lambda>r. Inl (New ''sql: Rows are closed'')) (\<lambda>b. Inr (JObject [])))
       default_keys default_keys ''ch1'' zeroPageMetadata
     = (\<lparr>Metadata = zeroPageMetadata\<lparr>Format := ''messages''\<rparr>, Total = 0,
         Messages = [Typed ''senml record'']\<rparr>,
        Some (New ''sql: Rows are closed''))"
  by (simp add: ReadAll_page_db typed_page_def)

text \<open>
  Claim C4, as stated, fails: the caller passes an empty format and the page that comes
  back has the format \<open>messages\<close>.
\<close>

theorem page_metadata_counterexample:
  "snd (ReadAll (page_db [1] (\<lambda>r. Inr 1) (\<lambda>b. Inr (JObject [])))
          default_keys default_keys ''ch1'' zeroPageMetadata) = None
   \<and> Format zeroPageMetadata = []
   \<and> Format (Metadata (fst (ReadAll (page_db [1] (\<lambda>r. Inr 1) (\<lambda>b. Inr (JObject [])))
          default_keys default_keys ''ch1'' zeroPageMetadata))) = ''messages''"
  by (simp add: ReadAll_page_db typed_page_def) (simp add: zeroPageMetadata_def)

text \<open>
  Claim C4, amended: a successful \<^verbatim>\<open>ReadAll\<close> returns the page metadata of the
  request, with the format replaced by the name of the default table, \<open>messages\<close>,
  when the caller passed an empty one; every other field is unchanged.
\<close>

theorem page_metadata_echo:
  assumes "ReadAll db ks1 ks2 chanID rpm = (page, None)"
  shows "Metadata page = (if Format rpm = [] then rpm\<lparr>Format := defTable\<rparr> else rpm)"
  using ReadAll_success [OF assms] by (auto simp add: with_table_def)

text \<open>
  A successful read of the table \<open>json\<close>.
\<close>

theorem page_metadata_echo_witness:
  "ReadAll (page_db [1] (\<lambda>r. Inr 1) (\<lambda>b. Inr (JObject []))) default_keys default_keys ''ch1''
      json_request
     = (\<lparr>Metadata = json_request, Total = 1, Messages = [Generic generic_record]\<rparr>, None)
   \<and> Metadata \<lparr>Metadata = json_request, Total = 1,
        Messages = [Generic generic_record :: string message]\<rparr>
      = (if Format json_request = [] then json_request\<lparr>Format := defTable\<rparr> else json_request)"
proof -
  have run: "ReadAll (page_db [1] (\<lambda>r. Inr 1) (\<lambda>b. Inr (JObject []))) default_keys default_keys
      ''ch1'' json_request
     = (\<lparr>Metadata = json_request, Total = 1, Messages = [Generic generic_record]\<rparr>, None)"
    by (simp add: ReadAll_page_db_json generic_record_def)
  show ?thesis
    using run page_metadata_echo [OF run] by simp
qed

lemma Marshal_time_request: "Marshal time_request = Some time_request_meta"
  by (simp add: Marshal_def time_request_def time_request_meta_def zeroPageMetadata_def
      encodable_def omitempty_string_def omitempty_float_def omitempty_bool_def)

lemma range_order_time_request:
  "range_order (Unmarshal_map time_request_meta) [''to'', ''offset'', ''from'', ''limit'']"
  by (auto simp add: range_order_def Unmarshal_map_def time_request_meta_def)

text \<open>
  The request with \<open>from = 10\<close> and \<open>to = 20\<close>: the row at time 10 is selected as far
  as the lower bound goes, the row at time 20 is not selected.
\<close>

theorem time_range_half_open_witness:
  "Marshal time_request = Some time_request_meta
   \<and> range_order (Unmarshal_map time_request_meta) [''to'', ''offset'', ''from'', ''limit'']
   \<and> ''from'' \<in> dom (Unmarshal_map time_request_meta)
   \<and> ''to'' \<in> dom (Unmarshal_map time_request_meta)
   \<and> fmtCondition [''to'', ''offset'', ''from'', ''limit''] ''ch1'' time_request
       = ''channel = :channel AND time < :to AND time >= :from''
   \<and> sublist '' AND time >= :from''
        (fmtCondition [''to'', ''offset'', ''from'', ''limit''] ''ch1'' time_request)
   \<and> sublist '' AND time < :to''
        (fmtCondition [''to'', ''offset'', ''from'', ''limit''] ''ch1'' time_request)
   \<and> row_at 10 ''time'' = Some (PFloat64 (Finite 10))
   \<and> query_params ''ch1'' time_request ''from'' = Some (PFloat64 (Finite 10))
   \<and> selects (row_at 10) (query_params ''ch1'' time_request)
        [(''time'', Lt, ''to''), (''time'', Ge, ''from'')]
       = selects (row_at 10) (query_params ''ch1'' time_request) [(''time'', Lt, ''to'')]
   \<and> row_at 20 ''time'' = Some (PFloat64 (Finite 20))
   \<and> query_params ''ch1'' time_request ''to'' = Some (PFloat64 (Finite 20))
   \<and> \<not> selects (row_at 20) (query_params ''ch1'' time_request)
        [(''time'', Lt, ''to''), (''time'', Ge, ''from'')]"
proof -
  note main = time_range_half_open [OF Marshal_time_request range_order_time_request, of "''ch1''"]
  have dom: "''from'' \<in> dom (Unmarshal_map time_request_meta)"
    "''to'' \<in> dom (Unmarshal_map time_request_meta)"
    by (simp_all add: Unmarshal_map_def time_request_meta_def)
  have cs: "List.map_filter clause_of [''to'', ''offset'', ''from'', ''limit'']
      = [(''time'', Lt, ''to''), (''time'', Ge, ''from'')]"
    by (simp add: clause_of_tags)
  have vals: "row_at 10 ''time'' = Some (PFloat64 (Finite 10))"
    "query_params ''ch1'' time_request ''from'' = Some (PFloat64 (Finite 10))"
    "row_at 20 ''time'' = Some (PFloat64 (Finite 20))"
    "query_params ''ch1'' time_request ''to'' = Some (PFloat64 (Finite 20))"
    by (simp_all add: row_at_def query_params_def time_request_def)
  have cond: "fmtCondition [''to'', ''offset'', ''from'', ''limit''] ''ch1'' time_request
       = ''channel = :channel AND time < :to AND time >= :from''"
    by (simp add: fmtCondition_def Marshal_time_request fmtCondition_case_def)
  from main dom have a: "sublist '' AND time >= :from''
        (fmtCondition [''to'', ''offset'', ''from'', ''limit''] ''ch1'' time_request)"
    and b: "sublist '' AND time < :to''
        (fmtCondition [''to'', ''offset'', ''from'', ''limit''] ''ch1'' time_request)"
    by blast+
  from main dom have "\<forall>row params t.
       row ''time'' = Some (PFloat64 (Finite t)) \<and> params ''from'' = Some (PFloat64 (Finite t))
       \<longrightarrow> selects row params (List.map_filter clause_of [''to'', ''offset'', ''from'', ''limit''])
           = selects row params (filter (\<lambda>c. c \<noteq> (''time'', Ge, ''from''))
               (List.map_filter clause_of [''to'', ''offset'', ''from'', ''limit'']))"
    by blast
  with vals(1,2) have c: "selects (row_at 10) (query_params ''ch1'' time_request)
        [(''time'', Lt, ''to''), (''time'', Ge, ''from'')]
       = selects (row_at 10) (query_params ''ch1'' time_request) [(''time'', Lt, ''to'')]"
    unfolding cs by auto
  from main dom have "\<forall>row params t.
       row ''time'' = Some (PFloat64 (Finite t)) \<and> params ''to'' = Some (PFloat64 (Finite t))
       \<longrightarrow> \<not> selects row params (List.map_filter clause_of [''to'', ''offset'', ''from'', ''limit''])"
    by blast
  with vals(3,4) have d: "\<not> selects (row_at 20) (query_params ''ch1'' time_request)
        [(''time'', Lt, ''to''), (''time'', Ge, ''from'')]"
    unfolding cs by blast
  show ?thesis
    using Marshal_time_request range_order_time_request dom cond a b vals c d by blast
qed

text \<open>
  A request that does not serialise.
\<close>

theorem condition_always_has_channel_witness:
  "Marshal nan_request = None
   \<and> prefix ''channel = :channel'' (fmtCondition [''subtopic'', ''v''] ''ch1'' nan_request)
   \<and> fmtCondition [''subtopic'', ''v''] ''ch1'' nan_request = ''channel = :channel''"
proof -
  have none: "Marshal nan_request = None"
    by (simp add: Marshal_def nan_request_def zeroPageMetadata_def encodable_def)
  then show ?thesis
    using condition_always_has_channel [of "[''subtopic'', ''v'']" "''ch1''" nan_request] by simp
qed

text \<open>
  Claim C7: in a read of a JSON table (the format is neither empty nor \<open>messages\<close>),
  when the payload column of some returned row is not valid JSON, \<^verbatim>\<open>ReadAll\<close>
  fails with an error wrapped under \<open>errReadMessages\<close> and returns the empty page: no
  message reaches the caller.
\<close>

theorem malformed_payload_fails:
  assumes "Format rpm \<noteq> []" and "Format rpm \<noteq> defTable"
    and "NamedQuery db (first_query ks1 chanID rpm) (query_params chanID (with_table rpm)) = Inr rows"
    and "r \<in> set rows"
    and "StructScan_jsonMessage db r = Inr msg"
    and "Unmarshal_payload db (msg_Payload msg) = Inl e"
  shows "\<exists>cause. ReadAll db ks1 ks2 chanID rpm = (zeroMessagesPage, Some (Wrap errReadMessages cause))
    \<and> Messages (fst (ReadAll db ks1 ks2 chanID rpm)) = []"
proof -
  have fmt: "with_table rpm = rpm"
    using assms(1) by (simp add: with_table_def)
  obtain cause where "scan_generic db rows [] = Inl (Wrap errReadMessages cause)"
    using scan_generic_bad_payload [OF assms(4,5,6)] by blast
  then have "ReadAll db ks1 ks2 chanID rpm = (zeroMessagesPage, Some (Wrap errReadMessages cause))"
    using assms(2,3) by (simp add: ReadAll_def Let_def fmt decode_rows_def)
  then show ?thesis
    by (simp add: zeroMessagesPage_def)
qed

text \<open>
  One row, and a decoder that rejects its payload.
\<close>

theorem malformed_payload_fails_witness:
  "Format json_request \<noteq> [] \<and> Format json_request \<noteq> defTable
   \<and> NamedQuery (page_db [1] (\<lambda>r. Inr 1) bad_json) (first_query default_keys ''ch1'' json_request)
        (query_params ''ch1'' (with_table json_request)) = Inr [1]
   \<and> (1::nat) \<in> set [1]
   \<and> Unmarshal_payload (page_db [1] (\<lambda>r. Inr 1) bad_json) [0x7B]
       = Inl (New ''unexpected end of JSON input'')
   \<and> ReadAll (page_db [1] (\<lambda>r. Inr 1) bad_json) default_keys default_keys ''ch1'' json_request
       = (zeroMessagesPage, Some (Wrap errReadMessages (New ''unexpected end of JSON input'')))
   \<and> Messages (fst (ReadAll (page_db [1] (\<lambda>r. Inr 1) bad_json) default_keys default_keys ''ch1''
        json_request)) = []"
proof -
  let ?db = "page_db [1] (\<lambda>r. Inr 1) bad_json"
  have q: "NamedQuery ?db (first_query default_keys ''ch1'' json_request)
        (query_params ''ch1'' (with_table json_request)) = Inr [1]"
    by (simp add: page_db_def example_db_def)
  have s: "StructScan_jsonMessage ?db 1 = Inr \<lparr>msg_ID = ''1'', msg_Channel = ''ch1'',
      msg_Created = 7, msg_Subtopic = [], msg_Publisher = ''p1'', msg_Protocol = ''mqtt'',
      msg_Payload = [0x7B]\<rparr>"
    by (simp add: page_db_def example_db_def)
  have u: "Unmarshal_payload ?db (msg_Payload \<lparr>msg_ID = ''1'', msg_Channel = ''ch1'',
      msg_Created = 7, msg_Subtopic = [], msg_Publisher = ''p1'', msg_Protocol = ''mqtt'',
      msg_Payload = [0x7B]\<rparr>) = Inl (New ''unexpected end of JSON input'')"
    by (simp add: page_db_def example_db_def bad_json_def)
  have m: "(1::nat) \<in> set [1]" by simp
  from malformed_payload_fails [OF Format_json(3) Format_json(2) q m s u, of default_keys]
  show ?thesis
    using q u by (simp add: Format_json defTable_def ReadAll_page_db_json bad_json_def)
qed

text \<open>
  Claim C8: after a successful \<^verbatim>\<open>ReadAll\<close> the messages are, row by row, the
  decoded rows of the page query. When the format designates the default table (it is
  empty, or \<open>messages\<close>) each message is the SenML record of its row; for any other
  format each message is the generic mapping of its row, whose \<open>payload\<close> is the
  decoded JSON payload passed through \<^verbatim>\<open>ParseFlat\<close>.
\<close>

theorem messages_follow_format:
  assumes "ReadAll db ks1 ks2 chanID rpm = (page, None)"
  shows "\<exists>rows. NamedQuery db (first_query ks1 chanID rpm) (query_params chanID (with_table rpm))
         = Inr rows
     \<and> (Format rpm = [] \<or> Format rpm = defTable
           \<longrightarrow> list_all2 (typed_message db) rows (Messages page))
     \<and> (Format rpm \<noteq> [] \<and> Format rpm \<noteq> defTable
           \<longrightarrow> list_all2 (generic_message db) rows (Messages page))"
proof -
  from ReadAll_success [OF assms] obtain rows where
    q: "NamedQuery db (first_query ks1 chanID rpm) (query_params chanID (with_table rpm)) = Inr rows"
    and d: "decode_rows db (Format (with_table rpm)) rows = Inr (Messages page)"
    by blast
  have typed: "list_all2 (typed_message db) rows (Messages page)"
    if "Format rpm = [] \<or> Format rpm = defTable"
  proof -
    have "Format (with_table rpm) = defTable"
      using that by (auto simp add: with_table_def)
    then have "scan_typed db rows [] = Inr (Messages page)"
      using d by (simp add: decode_rows_def)
    from scan_typed_messages [OF this] show ?thesis by simp
  qed
  have generic: "list_all2 (generic_message db) rows (Messages page)"
    if "Format rpm \<noteq> [] \<and> Format rpm \<noteq> defTable"
  proof -
    have "Format (with_table rpm) \<noteq> defTable"
      using that by (simp add: with_table_def)
    then have "scan_generic db rows [] = Inr (Messages page)"
      using d by (simp add: decode_rows_def)
    from scan_generic_messages [OF this] show ?thesis by simp
  qed
  show ?thesis
    using q typed generic by blast
qed

text \<open>
  A read of the table \<open>json\<close> and a read with no format.
\<close>

theorem messages_follow_format_witness:
  "ReadAll (page_db [1] (\<lambda>r. Inr 1) empty_object) default_keys default_keys ''ch1'' json_request
     = (\<lparr>Metadata = json_request, Total = 1, Messages = [Generic generic_record]\<rparr>, None)
   \<and> Format json_request \<noteq> [] \<and> Format json_request \<noteq> defTable
   \<and> NamedQuery (page_db [1] (\<lambda>r. Inr 1) empty_object)
        (first_query default_keys ''ch1'' json_request)
        (query_params ''ch1'' (with_table json_request)) = Inr [1]
   \<and> list_all2 (generic_message (page_db [1] (\<lambda>r. Inr 1) empty_object)) [1]
        [Generic generic_record]
   \<and> ReadAll (page_db [1] (\<lambda>r. Inr 1) empty_object) default_keys default_keys ''ch1''
        zeroPageMetadata
     = (typed_page\<lparr>Total := 1\<rparr>, None)
   \<and> Format zeroPageMetadata = []
   \<and> list_all2 (typed_message (page_db [1] (\<lambda>r. Inr 1) empty_object)) [1]
        [Typed ''senml record'']"
proof -
  let ?db = "page_db [1] (\<lambda>r. Inr 1) empty_object"
  have run: "ReadAll ?db default_keys default_keys ''ch1'' json_request
     = (\<lparr>Metadata = json_request, Total = 1, Messages = [Generic generic_record]\<rparr>, None)"
    by (simp add: ReadAll_page_db_json generic_record_def empty_object_def)
  have run0: "ReadAll ?db default_keys default_keys ''ch1'' zeroPageMetadata
     = (typed_page\<lparr>Total := 1\<rparr>, None)"
    by (simp add: ReadAll_page_db)
  have q: "NamedQuery ?db (first_query default_keys ''ch1'' json_request)
        (query_params ''ch1'' (with_table json_request)) = Inr [1]"
    "NamedQuery ?db (first_query default_keys ''ch1'' zeroPageMetadata)
        (query_params ''ch1'' (with_table zeroPageMetadata)) = Inr [1]"
    by (simp_all add: page_db_def example_db_def)
  have z: "Format zeroPageMetadata = []" by (simp add: zeroPageMetadata_def)
  from messages_follow_format [OF run] q(1) Format_json
  have g: "list_all2 (generic_message ?db) [1] [Generic generic_record]" by simp
  from messages_follow_format [OF run0] q(2) z
  have t: "list_all2 (typed_message ?db) [1] [Typed ''senml record'']"
    by (simp add: typed_page_def)
  show ?thesis
    using run run0 q(1) Format_json z g t by simp
qed




text \<open>
  Claim C10: when the page query succeeds, its rows decode, and the count query
  succeeds with no row, \<^verbatim>\<open>ReadAll\<close> returns the decoded page with a total of zero
  and no error.
\<close>

theorem empty_count_gives_zero_total:
  assumes "NamedQuery db (first_query ks1 chanID rpm) (query_params chanID (with_table rpm))
      = Inr rows"
    and "decode_rows db (Format (with_table rpm)) rows = Inr msgs"
    and "NamedQuery db (second_query ks2 chanID rpm) (query_params chanID (with_table rpm))
      = Inr []"
  shows "ReadAll db ks1 ks2 chanID rpm
    = (\<lparr>Metadata = with_table rpm, Total = 0, Messages = msgs\<rparr>, None)"
  using assms by (simp add: ReadAll_def Let_def read_total_def)

text \<open>
  One decoded row and a count query without rows.
\<close>

theorem empty_count_gives_zero_total_witness:
  "NamedQuery (page_db [] (\<lambda>r. Inr 1) empty_object) (first_query default_keys ''ch1'' json_request)
      (query_params ''ch1'' (with_table json_request)) = Inr [1]
   \<and> decode_rows (page_db [] (\<lambda>r. Inr 1) empty_object) (Format (with_table json_request)) [1]
      = Inr [Generic generic_record]
   \<and> NamedQuery (page_db [] (\<lambda>r. Inr 1) empty_object)
      (second_query default_keys ''ch1'' json_request)
      (query_params ''ch1'' (with_table json_request)) = Inr []
   \<and> ReadAll (page_db [] (\<lambda>r. Inr 1) empty_object) default_keys default_keys ''ch1'' json_request
      = (\<lparr>Metadata = json_request, Total = 0, Messages = [Generic generic_record]\<rparr>, None)"
proof -
  let ?db = "page_db [] (\<lambda>r. Inr 1) empty_object"
  have q: "NamedQuery ?db (first_query default_keys ''ch1'' json_request)
      (query_params ''ch1'' (with_table json_request)) = Inr [1]"
    by (simp add: page_db_def example_db_def)
  have d: "decode_rows ?db (Format (with_table json_request)) [1] = Inr [Generic generic_record]"
    by (simp add: decode_rows_def with_table_json Format_json defTable_def page_db_def example_db_def
        toMap_def index_map_def empty_object_def generic_record_def)
  have c: "NamedQuery ?db (second_query default_keys ''ch1'' json_request)
      (query_params ''ch1'' (with_table json_request)) = Inr []"
    by (simp add: page_db_def example_db_def)
  from empty_count_gives_zero_total [OF q d c] show ?thesis
    using q d c by (simp add: with_table_json)
qed

lemma read_total_failure:
  "read_total db q params page = (page', Some e) \<Longrightarrow>
   (page' = zeroMessagesPage \<and> (\<exists>cause. e = Wrap errReadMessages cause))
   \<or> (page' = page \<and> (\<exists>r rest. NamedQuery db q params = Inr (r # rest) \<and> Scan_uint64 db r = Inl e))"
  by (auto simp add: read_total_def split: sum.splits list.splits)

text \<open>
  Every failure of \<^verbatim>\<open>ReadAll\<close> returns the empty page and an error wrapped under
  \<open>errReadMessages\<close>, except the failure to read the count.
\<close>

lemma ReadAll_failure:
  assumes "ReadAll db ks1 ks2 chanID rpm = (page, Some e)"
  shows "(page = zeroMessagesPage \<and> (\<exists>cause. e = Wrap errReadMessages cause))
   \<or> (\<exists>r rest. NamedQuery db (second_query ks2 chanID rpm) (query_params chanID (with_table rpm))
          = Inr (r # rest) \<and> Scan_uint64 db r = Inl e)"
proof (cases "NamedQuery db (first_query ks1 chanID rpm) (query_params chanID (with_table rpm))")
  case (Inl err)
  then show ?thesis using assms by (auto simp add: ReadAll_def Let_def)
next
  case (Inr rows)
  show ?thesis
  proof (cases "decode_rows db (Format (with_table rpm)) rows")
    case (Inl err)
    then show ?thesis
      using assms Inr decode_rows_wrapped [OF Inl] by (auto simp add: ReadAll_def Let_def)
  next
    case (Inr msgs)
    then have "read_total db (second_query ks2 chanID rpm) (query_params chanID (with_table rpm))
        \<lparr>Metadata = with_table rpm, Total = 0, Messages = msgs\<rparr> = (page, Some e)"
      using assms \<open>NamedQuery db _ _ = Inr rows\<close> by (simp add: ReadAll_def Let_def)
    from read_total_failure [OF this] show ?thesis by blast
  qed
qed

end
